theory Spec2Isabelle
  imports Main "HOL-Library.Word"
begin

section \<open>The scene collection (internal/models/scene/SceneManager.go)\<close>

text \<open>
  The SceneManager reaches the \<open>nerfdb.scenes\<close> collection through the MongoDB driver.
  The driver is a dependency, not part of the repository, so the embedding has two layers:
  \<^item> the SceneManager's methods, written over a collection handle whose three operations
    (\<open>UpdateOne\<close>, \<open>FindOne\<close>, \<open>DeleteOne\<close>) are fields of a record, as they are methods of
    \<open>*mongo.Collection\<close> in the source;
  \<^item> \<open>mongo\<close>, a handle that behaves as a MongoDB collection does for the calls the
    SceneManager makes: documents keyed by a unique \<open>_id\<close>, \<open>$set\<close> with upsert,
    lookup and deletion by \<open>_id\<close>.
\<close>

subsection \<open>Identifiers, contexts and errors\<close>

text \<open>\<open>primitive.ObjectID\<close> is \<open>[12]byte\<close>.\<close>

datatype ObjectID = ObjectID "8 word list"

text \<open>
  A \<open>context.Context\<close> as far as the driver looks at it: \<open>context.TODO()\<close> is never
  done; a cancelled or expired context makes the driver return its \<open>Err()\<close>.
\<close>

datatype Context = TODO | Canceled | DeadlineExceeded

text \<open>
  Errors of the driver: the sentinel \<open>mongo.ErrNoDocuments\<close>, a value that does not decode
  into the destination, and the two context errors.
\<close>

datatype driver_error =
    ErrNoDocuments
  | ErrDecode
  | ErrContextCanceled
  | ErrDeadlineExceeded

fun ctx_Err :: "Context \<Rightarrow> driver_error option" where
  "ctx_Err TODO = None"
| "ctx_Err Canceled = Some ErrContextCanceled"
| "ctx_Err DeadlineExceeded = Some ErrDeadlineExceeded"

text \<open>
  The package's sentinel errors (\<open>var ( ErrSceneNotFound = errors.New(...) ... )\<close>), and
  a driver error returned unchanged (\<open>return err\<close>).
\<close>

datatype error =
    ErrSceneNotFound
  | ErrVideoNotFound
  | ErrSfmNotFound
  | ErrNerfNotFound
  | ErrTrainingConfigNotFound
  | DriverError driver_error

subsection \<open>Documents\<close>

text \<open>
  The values the SceneManager writes under a key: a Go \<open>string\<close> (the name) or a
  pointer to one of the structs \<open>Video\<close>, \<open>Sfm\<close>, \<open>Nerf\<close>, \<open>TrainingConfig\<close>. The
  structs are declared outside the files at hand; \<open>'a\<close> stands for the embedded
  document such a struct marshals to. A nil pointer marshals to BSON null.
\<close>

datatype 'a bson = BNull | BString string | BDocument 'a

fun marshal_ptr :: "'a option \<Rightarrow> 'a bson" where
  "marshal_ptr None = BNull"
| "marshal_ptr (Some v) = BDocument v"

text \<open>A stored document: its top-level fields other than \<open>_id\<close>, by key.\<close>

type_synonym 'a document = "string \<rightharpoonup> 'a bson"

text \<open>
  Decoding one field of a found document into the destination struct's field:
  a pointer field (\<open>Video *Video `bson:"video"`\<close>) stays nil when the key is absent or
  null; a string field (\<open>Name string `bson:"name"`\<close>) stays \<open>""\<close> then.
\<close>

fun decode_ptr :: "'a bson option \<Rightarrow> driver_error + 'a option" where
  "decode_ptr None = Inr None"
| "decode_ptr (Some BNull) = Inr None"
| "decode_ptr (Some (BDocument v)) = Inr (Some v)"
| "decode_ptr (Some (BString s)) = Inl ErrDecode"

fun decode_string :: "'a bson option \<Rightarrow> driver_error + string" where
  "decode_string None = Inr []"
| "decode_string (Some BNull) = Inr []"
| "decode_string (Some (BString s)) = Inr s"
| "decode_string (Some (BDocument v)) = Inl ErrDecode"

text \<open>
  \<open>(*SingleResult).Decode(&result)\<close> for a destination struct with the single field
  tagged \<open>key\<close>: the error of the lookup if there is one, else the decoded field.
\<close>

definition Decode ::
  "(driver_error + 'a document) \<Rightarrow> string \<Rightarrow> ('a bson option \<Rightarrow> driver_error + 'b)
     \<Rightarrow> driver_error + 'b" where
  "Decode single_result key field =
     (case single_result of Inl err \<Rightarrow> Inl err | Inr doc \<Rightarrow> field (doc key))"

subsection \<open>The collection handle\<close>

text \<open>
  The counters of \<open>*mongo.UpdateResult\<close> and \<open>*mongo.DeleteResult\<close> the code reads
  (\<open>int64\<close> in the driver; a call addresses one document, so they are 0 or 1).
\<close>

record UpdateResult =
  MatchedCount :: int
  UpsertedCount :: int

record DeleteResult =
  DeletedCount :: int

text \<open>
  The three methods of \<open>*mongo.Collection\<close> the SceneManager calls, over a state \<open>'s\<close> of
  the database. The filter is always \<open>bson.M{"_id": id}\<close> and is passed as \<open>oid\<close> (the source's \<open>id\<close>); the update
  is always \<open>bson.M{"$set": bson.M{key: value}}\<close> and is passed as the list of its
  \<open>$set\<close> pairs; the option is the upsert flag.
\<close>

record ('s, 'a) Collection =
  UpdateOne :: "Context \<Rightarrow> ObjectID \<Rightarrow> (string \<times> 'a bson) list \<Rightarrow> bool \<Rightarrow> 's
                  \<Rightarrow> 's \<times> (driver_error + UpdateResult)"
  FindOne :: "Context \<Rightarrow> ObjectID \<Rightarrow> 's \<Rightarrow> driver_error + 'a document"
  DeleteOne :: "Context \<Rightarrow> ObjectID \<Rightarrow> 's \<Rightarrow> 's \<times> (driver_error + DeleteResult)"

text \<open>\<open>type SceneManager struct { collection *mongo.Collection; logger *log.Logger }\<close>\<close>

record ('s, 'a) SceneManager =
  collection :: "('s, 'a) Collection"

subsection \<open>A MongoDB collection\<close>

text \<open>The documents of the collection, by \<open>_id\<close> (which is unique in a collection).\<close>

type_synonym 'a store = "ObjectID \<rightharpoonup> 'a document"

text \<open>\<open>$set\<close>: each pair replaces the value under its key, or adds the key.\<close>

fun apply_set :: "(string \<times> 'a bson) list \<Rightarrow> 'a document \<Rightarrow> 'a document" where
  "apply_set [] doc = doc"
| "apply_set ((k, v) # kvs) doc = apply_set kvs (doc(k \<mapsto> v))"

definition mongo_UpdateOne ::
  "Context \<Rightarrow> ObjectID \<Rightarrow> (string \<times> 'a bson) list \<Rightarrow> bool \<Rightarrow> 'a store
     \<Rightarrow> 'a store \<times> (driver_error + UpdateResult)" where
  "mongo_UpdateOne ctx oid sets upsert s =
     (case ctx_Err ctx of
        Some err \<Rightarrow> (s, Inl err)
      | None \<Rightarrow>
          (case s oid of
             Some doc \<Rightarrow>
               (s(oid \<mapsto> apply_set sets doc), Inr \<lparr>MatchedCount = 1, UpsertedCount = 0\<rparr>)
           | None \<Rightarrow>
               if upsert
               then (s(oid \<mapsto> apply_set sets Map.empty),
                     Inr \<lparr>MatchedCount = 0, UpsertedCount = 1\<rparr>)
               else (s, Inr \<lparr>MatchedCount = 0, UpsertedCount = 0\<rparr>)))"

definition mongo_FindOne ::
  "Context \<Rightarrow> ObjectID \<Rightarrow> 'a store \<Rightarrow> driver_error + 'a document" where
  "mongo_FindOne ctx oid s =
     (case ctx_Err ctx of
        Some err \<Rightarrow> Inl err
      | None \<Rightarrow> (case s oid of None \<Rightarrow> Inl ErrNoDocuments | Some doc \<Rightarrow> Inr doc))"

definition mongo_DeleteOne ::
  "Context \<Rightarrow> ObjectID \<Rightarrow> 'a store \<Rightarrow> 'a store \<times> (driver_error + DeleteResult)" where
  "mongo_DeleteOne ctx oid s =
     (case ctx_Err ctx of
        Some err \<Rightarrow> (s, Inl err)
      | None \<Rightarrow>
          (case s oid of
             None \<Rightarrow> (s, Inr \<lparr>DeletedCount = 0\<rparr>)
           | Some doc \<Rightarrow> (s(oid := None), Inr \<lparr>DeletedCount = 1\<rparr>)))"

definition mongo :: "('a store, 'a) Collection" where
  "mongo = \<lparr>UpdateOne = mongo_UpdateOne, FindOne = mongo_FindOne, DeleteOne = mongo_DeleteOne\<rparr>"

text \<open>\<open>NewSceneManager\<close>: the manager of the \<open>scenes\<close> collection.\<close>

definition NewSceneManager :: "('a store, 'a) SceneManager" where
  "NewSceneManager = \<lparr>collection = mongo\<rparr>"

subsection \<open>The setters\<close>

text \<open>
  Each setter is one \<open>UpdateOne\<close> with \<open>$set\<close> on its own key and upsert on, followed by
  the same two checks: the driver's error is returned as it is, and a result that reports
  neither a matched nor an upserted document gives \<open>ErrSceneNotFound\<close>.
\<close>

definition SetTrainingConfig ::
  "('s, 'a) SceneManager \<Rightarrow> Context \<Rightarrow> ObjectID \<Rightarrow> 'a option \<Rightarrow> 's \<Rightarrow> 's \<times> error option" where
  "SetTrainingConfig sm ctx oid config s =
     (case UpdateOne (collection sm) ctx oid [(''config'', marshal_ptr config)] True s of
        (s', Inl err) \<Rightarrow> (s', Some (DriverError err))
      | (s', Inr result) \<Rightarrow>
          if MatchedCount result = 0 \<and> UpsertedCount result = 0
          then (s', Some ErrSceneNotFound)
          else (s', None))"

definition SetVideo ::
  "('s, 'a) SceneManager \<Rightarrow> Context \<Rightarrow> ObjectID \<Rightarrow> 'a option \<Rightarrow> 's \<Rightarrow> 's \<times> error option" where
  "SetVideo sm ctx oid vid s =
     (case UpdateOne (collection sm) ctx oid [(''video'', marshal_ptr vid)] True s of
        (s', Inl err) \<Rightarrow> (s', Some (DriverError err))
      | (s', Inr result) \<Rightarrow>
          if MatchedCount result = 0 \<and> UpsertedCount result = 0
          then (s', Some ErrSceneNotFound)
          else (s', None))"

definition SetSfm ::
  "('s, 'a) SceneManager \<Rightarrow> Context \<Rightarrow> ObjectID \<Rightarrow> 'a option \<Rightarrow> 's \<Rightarrow> 's \<times> error option" where
  "SetSfm sm ctx oid sfm s =
     (case UpdateOne (collection sm) ctx oid [(''sfm'', marshal_ptr sfm)] True s of
        (s', Inl err) \<Rightarrow> (s', Some (DriverError err))
      | (s', Inr result) \<Rightarrow>
          if MatchedCount result = 0 \<and> UpsertedCount result = 0
          then (s', Some ErrSceneNotFound)
          else (s', None))"

definition SetNerf ::
  "('s, 'a) SceneManager \<Rightarrow> Context \<Rightarrow> ObjectID \<Rightarrow> 'a option \<Rightarrow> 's \<Rightarrow> 's \<times> error option" where
  "SetNerf sm ctx oid nerf s =
     (case UpdateOne (collection sm) ctx oid [(''nerf'', marshal_ptr nerf)] True s of
        (s', Inl err) \<Rightarrow> (s', Some (DriverError err))
      | (s', Inr result) \<Rightarrow>
          if MatchedCount result = 0 \<and> UpsertedCount result = 0
          then (s', Some ErrSceneNotFound)
          else (s', None))"

definition SetSceneName ::
  "('s, 'a) SceneManager \<Rightarrow> Context \<Rightarrow> ObjectID \<Rightarrow> string \<Rightarrow> 's \<Rightarrow> 's \<times> error option" where
  "SetSceneName sm ctx oid name s =
     (case UpdateOne (collection sm) ctx oid [(''name'', BString name)] True s of
        (s', Inl err) \<Rightarrow> (s', Some (DriverError err))
      | (s', Inr result) \<Rightarrow>
          if MatchedCount result = 0 \<and> UpsertedCount result = 0
          then (s', Some ErrSceneNotFound)
          else (s', None))"

subsection \<open>The getters\<close>

text \<open>
  Each getter is one \<open>FindOne\<close> decoded into a struct with the one field it wants.
  \<open>mongo.ErrNoDocuments\<close> becomes \<open>ErrSceneNotFound\<close>, any other error is returned as it
  is, and a nil field gives the not-found error of that sub-resource. \<open>GetSceneName\<close> has
  no such last check: it returns the decoded string.
\<close>

definition GetSceneName ::
  "('s, 'a) SceneManager \<Rightarrow> Context \<Rightarrow> ObjectID \<Rightarrow> 's \<Rightarrow> error + string" where
  "GetSceneName sm ctx oid s =
     (case Decode (FindOne (collection sm) ctx oid s) ''name'' decode_string of
        Inl err \<Rightarrow>
          if err = ErrNoDocuments then Inl ErrSceneNotFound else Inl (DriverError err)
      | Inr name \<Rightarrow> Inr name)"

definition GetTrainingConfig ::
  "('s, 'a) SceneManager \<Rightarrow> Context \<Rightarrow> ObjectID \<Rightarrow> 's \<Rightarrow> error + 'a" where
  "GetTrainingConfig sm ctx oid s =
     (case Decode (FindOne (collection sm) ctx oid s) ''config'' decode_ptr of
        Inl err \<Rightarrow>
          if err = ErrNoDocuments then Inl ErrSceneNotFound else Inl (DriverError err)
      | Inr None \<Rightarrow> Inl ErrTrainingConfigNotFound
      | Inr (Some config) \<Rightarrow> Inr config)"

definition GetVideo ::
  "('s, 'a) SceneManager \<Rightarrow> Context \<Rightarrow> ObjectID \<Rightarrow> 's \<Rightarrow> error + 'a" where
  "GetVideo sm ctx oid s =
     (case Decode (FindOne (collection sm) ctx oid s) ''video'' decode_ptr of
        Inl err \<Rightarrow>
          if err = ErrNoDocuments then Inl ErrSceneNotFound else Inl (DriverError err)
      | Inr None \<Rightarrow> Inl ErrVideoNotFound
      | Inr (Some video) \<Rightarrow> Inr video)"

definition GetSfm ::
  "('s, 'a) SceneManager \<Rightarrow> Context \<Rightarrow> ObjectID \<Rightarrow> 's \<Rightarrow> error + 'a" where
  "GetSfm sm ctx oid s =
     (case Decode (FindOne (collection sm) ctx oid s) ''sfm'' decode_ptr of
        Inl err \<Rightarrow>
          if err = ErrNoDocuments then Inl ErrSceneNotFound else Inl (DriverError err)
      | Inr None \<Rightarrow> Inl ErrSfmNotFound
      | Inr (Some sfm) \<Rightarrow> Inr sfm)"

definition GetNerf ::
  "('s, 'a) SceneManager \<Rightarrow> Context \<Rightarrow> ObjectID \<Rightarrow> 's \<Rightarrow> error + 'a" where
  "GetNerf sm ctx oid s =
     (case Decode (FindOne (collection sm) ctx oid s) ''nerf'' decode_ptr of
        Inl err \<Rightarrow>
          if err = ErrNoDocuments then Inl ErrSceneNotFound else Inl (DriverError err)
      | Inr None \<Rightarrow> Inl ErrNerfNotFound
      | Inr (Some nerf) \<Rightarrow> Inr nerf)"

subsection \<open>Deletion\<close>

definition DeleteScene ::
  "('s, 'a) SceneManager \<Rightarrow> Context \<Rightarrow> ObjectID \<Rightarrow> 's \<Rightarrow> 's \<times> error option" where
  "DeleteScene sm ctx oid s =
     (case DeleteOne (collection sm) ctx oid s of
        (s', Inl err) \<Rightarrow> (s', Some (DriverError err))
      | (s', Inr result) \<Rightarrow>
          if DeletedCount result = 0 then (s', Some ErrSceneNotFound) else (s', None))"


text \<open>
  What a caller of the store can read of a sub-resource: the value stored under \<open>key\<close> in
  the document of \<open>oid\<close>, if there is such a document and it has the key.
\<close>

definition field :: "'a store \<Rightarrow> ObjectID \<Rightarrow> string \<Rightarrow> 'a bson option" where
  "field s oid key = (case s oid of None \<Rightarrow> None | Some doc \<Rightarrow> doc key)"

section \<open>The web server (package web)\<close>

text \<open>
  The handlers run inside the fiber framework and call the JWT library, the client service
  and request parsers of other files. The embedding keeps what the handlers read and write
  of a \<open>*fiber.Ctx\<close>, and takes the functions defined elsewhere as arguments. The calls to
  the logger are left out: they write log lines and change nothing else.
\<close>

subsection \<open>Values of Go's \<open>interface{}\<close> that travel as JSON\<close>

text \<open>
  The value of a claim after decoding, and the bodies the handlers send. A number keeps
  its literal: its value as a \<open>float64\<close> is never looked at here.
\<close>

datatype json =
    JNull
  | JBool bool
  | JNumber string
  | JString string
  | JArray "json list"
  | JObject "(string \<times> json) list"

subsection \<open>Library functions\<close>

text \<open>
  \<open>strings.Split(s, sep)\<close> for a separator of one byte, the way the program calls it:
  the pieces between the separators, one more than there are separators.
\<close>

fun Split :: "string \<Rightarrow> char \<Rightarrow> string list" where
  "Split [] sep = [[]]"
| "Split (c # cs) sep =
     (if c = sep then [] # Split cs sep
      else (let parts = Split cs sep in (c # hd parts) # tl parts))"

text \<open>
  \<open>primitive.ObjectIDFromHex\<close>: the string must have 24 characters, all of them hexadecimal
  digits; two digits make a byte.
\<close>

datatype hex_error = ErrInvalidHex | InvalidByteError char

fun fromHexChar :: "char \<Rightarrow> nat option" where
  "fromHexChar c =
     (let n = of_char c in
      if of_char CHR ''0'' \<le> n \<and> n \<le> of_char CHR ''9'' then Some (n - of_char CHR ''0'')
      else if of_char CHR ''a'' \<le> n \<and> n \<le> of_char CHR ''f'' then Some (n - of_char CHR ''a'' + 10)
      else if of_char CHR ''A'' \<le> n \<and> n \<le> of_char CHR ''F'' then Some (n - of_char CHR ''A'' + 10)
      else None)"

fun hex_Decode :: "string \<Rightarrow> hex_error + 8 word list" where
  "hex_Decode (a # b # cs) =
     (case fromHexChar a of
        None \<Rightarrow> Inl (InvalidByteError a)
      | Some hi \<Rightarrow>
          (case fromHexChar b of
             None \<Rightarrow> Inl (InvalidByteError b)
           | Some lo \<Rightarrow>
               (case hex_Decode cs of
                  Inl err \<Rightarrow> Inl err
                | Inr bytes \<Rightarrow> Inr (of_nat (hi * 16 + lo) # bytes))))"
| "hex_Decode cs = Inr []"

definition ObjectIDFromHex :: "string \<Rightarrow> hex_error + ObjectID" where
  "ObjectIDFromHex s =
     (if length s \<noteq> 24 then Inl ErrInvalidHex
      else (case hex_Decode s of Inl err \<Rightarrow> Inl err | Inr bytes \<Rightarrow> Inr (ObjectID bytes)))"

text \<open>\<open>ObjectID.Hex()\<close>, which is also how an ObjectID appears in a JSON body.\<close>

definition hex_digit :: "nat \<Rightarrow> char" where
  "hex_digit n = ''0123456789abcdef'' ! n"

fun Hex :: "ObjectID \<Rightarrow> string" where
  "Hex (ObjectID bytes) =
     concat (map (\<lambda>b. [hex_digit (unat b div 16), hex_digit (unat b mod 16)]) bytes)"

subsection \<open>The request context\<close>

text \<open>
  What the handlers touch of a \<open>*fiber.Ctx\<close>: the request's headers, the locals, and the
  response's status and body. The only local the program stores is the string \<open>userID\<close>.
\<close>

datatype body = NoBody | JSONBody json | RawBody string

record Ctx =
  request_headers :: "string \<rightharpoonup> string"
  locals :: "string \<rightharpoonup> string"
  response_status :: nat
  response_body :: body

text \<open>\<open>c.Get(key)\<close>: the header's value, \<open>""\<close> when the request has no such header.\<close>

definition Get :: "Ctx \<Rightarrow> string \<Rightarrow> string" where
  "Get c key = (case request_headers c key of None \<Rightarrow> [] | Some v \<Rightarrow> v)"

definition Status :: "Ctx \<Rightarrow> nat \<Rightarrow> Ctx" where
  "Status c code = c\<lparr>response_status := code\<rparr>"

definition JSON :: "Ctx \<Rightarrow> json \<Rightarrow> Ctx" where
  "JSON c data = c\<lparr>response_body := JSONBody data\<rparr>"

definition Send :: "Ctx \<Rightarrow> string \<Rightarrow> Ctx" where
  "Send c bytes = c\<lparr>response_body := RawBody bytes\<rparr>"

text \<open>\<open>c.Locals(key, value)\<close> stores, \<open>c.Locals(key)\<close> reads.\<close>

definition Locals_set :: "Ctx \<Rightarrow> string \<Rightarrow> string \<Rightarrow> Ctx" where
  "Locals_set c key v = c\<lparr>locals := (locals c)(key \<mapsto> v)\<rparr>"

definition Locals :: "Ctx \<Rightarrow> string \<Rightarrow> string option" where
  "Locals c key = locals c key"

abbreviation StatusOK :: nat where "StatusOK \<equiv> 200"
abbreviation StatusAccepted :: nat where "StatusAccepted \<equiv> 202"
abbreviation StatusBadRequest :: nat where "StatusBadRequest \<equiv> 400"
abbreviation StatusUnauthorized :: nat where "StatusUnauthorized \<equiv> 401"
abbreviation StatusInternalServerError :: nat where "StatusInternalServerError \<equiv> 500"

text \<open>\<open>fiber.Map{"error": msg}\<close>\<close>

abbreviation error_Map :: "string \<Rightarrow> json" where
  "error_Map msg \<equiv> JObject [(''error'', JString msg)]"

text \<open>
  A handler returns the context it has written to and the error it returns, or panics
  (a nil dereference, a failed type assertion). \<open>c.Status(..).JSON(..)\<close> of a map of
  strings returns no error.
\<close>

datatype 'a outcome = Return 'a | Panic

type_synonym 'e Handler = "Ctx \<Rightarrow> (Ctx \<times> 'e option) outcome"

subsection \<open>Tokens\<close>

text \<open>
  A \<open>*jwt.Token\<close> as \<open>jwt.Parse\<close> hands it back. \<open>Claims\<close> is an interface: the program
  asserts that it holds a \<open>jwt.MapClaims\<close> (a \<open>map[string]interface{}\<close>).
\<close>

datatype Claims = MapClaims "string \<rightharpoonup> json" | OtherClaims

record Token =
  Raw :: string
  Header :: "string \<rightharpoonup> json"
  Claims :: Claims
  Signature :: string
  Valid :: bool

text \<open>The kinds of \<open>*jwt.ValidationError\<close>.\<close>

datatype ValidationError =
    ValidationErrorMalformed
  | ValidationErrorUnverifiable
  | ValidationErrorSignatureInvalid
  | ValidationErrorClaimsInvalid

text \<open>A \<open>jwt.Keyfunc\<close> gives the key for a parsed token; \<open>jwt.Parse\<close> takes the token string and one.\<close>

type_synonym Keyfunc = "Token \<Rightarrow> ValidationError + string"

type_synonym Parse = "string \<Rightarrow> Keyfunc \<Rightarrow> Token option \<times> ValidationError option"

subsection \<open>The server and its collaborators\<close>

text \<open>
  The methods of \<open>*services.ClientService\<close> the handlers call, with \<open>err.Error()\<close> for an
  error; \<open>'r\<close> is the parsed upload request.
\<close>

record 'r ClientService =
  HandleIncomingVideo :: "ObjectID \<Rightarrow> 'r \<Rightarrow> string + ObjectID"
  GetSceneMetadata :: "ObjectID \<Rightarrow> ObjectID \<Rightarrow> string + json"
  GetUserSceneHistory :: "ObjectID \<Rightarrow> string + json"
  GetSceneThumbnailPath :: "ObjectID \<Rightarrow> ObjectID \<Rightarrow> string + string"
  ClientService_GetSceneName :: "ObjectID \<Rightarrow> ObjectID \<Rightarrow> string + string"

record 'r WebServer =
  jwtSecret :: string
  clientService :: "'r ClientService"

subsection \<open>\<open>tokenRequired\<close>\<close>

definition tokenRequired :: "Parse \<Rightarrow> 'r WebServer \<Rightarrow> 'e Handler \<Rightarrow> 'e Handler" where
  "tokenRequired jwt_Parse s handler c =
     (let authHeader = Get c ''Authorization'' in
      if authHeader = [] then
        Return (JSON (Status c StatusUnauthorized) (error_Map ''Missing Authorization header''), None)
      else
        let parts = Split authHeader CHR '' '' in
        if length parts \<noteq> 2 \<or> parts ! 0 \<noteq> ''Bearer'' then
          Return (JSON (Status c StatusUnauthorized)
            (error_Map ''Invalid Authorization header format. Expected: `Bearer <token>`''), None)
        else
          let tokenString = parts ! 1 in
          (case jwt_Parse tokenString (\<lambda>token. Inr (jwtSecret s)) of
             (_, Some err) \<Rightarrow>
               Return (JSON (Status c StatusUnauthorized) (error_Map ''Invalid token''), None)
           | (None, None) \<Rightarrow> Panic
           | (Some token, None) \<Rightarrow>
               if \<not> Valid token then
                 Return (JSON (Status c StatusUnauthorized) (error_Map ''Invalid token''), None)
               else
                 (case Claims token of
                    OtherClaims \<Rightarrow>
                      Return (JSON (Status c StatusUnauthorized)
                        (error_Map ''Invalid token claims''), None)
                  | MapClaims claims \<Rightarrow>
                      (case claims ''sub'' of
                         Some (JString userID) \<Rightarrow> handler (Locals_set c ''userID'' userID)
                       | _ \<Rightarrow>
                           Return (JSON (Status c StatusUnauthorized)
                             (error_Map ''Invalid user ID in token''), None)))))"

subsection \<open>The protected handlers\<close>

text \<open>
  \<open>ParseVideoUploadRequest\<close>, \<open>ValidateRequest\<close> (which fills a request whose one field
  read here is \<open>SceneID\<close>) and \<open>os.ReadFile\<close> are arguments, with \<open>err.Error()\<close> for an error.
\<close>

definition receiveVideo ::
  "(Ctx \<Rightarrow> string + 'r) \<Rightarrow> 'r WebServer \<Rightarrow> 'e Handler" where
  "receiveVideo ParseVideoUploadRequest s c =
     (case Locals c ''userID'' of
        None \<Rightarrow> Panic
      | Some uid \<Rightarrow>
          (case ObjectIDFromHex uid of
             Inl err \<Rightarrow> Return (JSON (Status c StatusBadRequest) (error_Map ''Invalid user ID''), None)
           | Inr userID \<Rightarrow>
               (case ParseVideoUploadRequest c of
                  Inl err \<Rightarrow> Return (JSON (Status c StatusBadRequest) (error_Map err), None)
                | Inr req \<Rightarrow>
                    (case HandleIncomingVideo (clientService s) userID req of
                       Inl err \<Rightarrow>
                         Return (JSON (Status c StatusBadRequest) (error_Map err), None)
                     | Inr sceneID \<Rightarrow>
                         Return (JSON (Status c StatusAccepted)
                           (JObject [(''id'', JString (Hex sceneID)),
                              (''message'', JString
                                 ''Video received and processing scene. Check back later for updates.'')]),
                           None)))))"

definition getSceneMetadata ::
  "(Ctx \<Rightarrow> string + string) \<Rightarrow> 'r WebServer \<Rightarrow> 'e Handler" where
  "getSceneMetadata ValidateRequest s c =
     (case ValidateRequest c of
        Inl err \<Rightarrow> Return (JSON (Status c StatusBadRequest) (error_Map err), None)
      | Inr req_SceneID \<Rightarrow>
          (case Locals c ''userID'' of
             None \<Rightarrow> Panic
           | Some uid \<Rightarrow>
               (case ObjectIDFromHex uid of
                  Inl err \<Rightarrow>
                    Return (JSON (Status c StatusBadRequest) (error_Map ''Invalid user ID''), None)
                | Inr userID \<Rightarrow>
                    (case ObjectIDFromHex req_SceneID of
                       Inl err \<Rightarrow>
                         Return (JSON (Status c StatusBadRequest) (error_Map ''Invalid job ID''), None)
                     | Inr sceneID \<Rightarrow>
                         (case GetSceneMetadata (clientService s) userID sceneID of
                            Inl err \<Rightarrow>
                              Return (JSON (Status c StatusInternalServerError) (error_Map err), None)
                          | Inr sceneData \<Rightarrow>
                              Return (JSON (Status c StatusOK) sceneData, None))))))"

definition getUserSceneHistory :: "'r WebServer \<Rightarrow> 'e Handler" where
  "getUserSceneHistory s c =
     (case Locals c ''userID'' of
        None \<Rightarrow> Panic
      | Some uid \<Rightarrow>
          (case ObjectIDFromHex uid of
             Inl err \<Rightarrow> Return (JSON (Status c StatusBadRequest) (error_Map ''Invalid user ID''), None)
           | Inr userID \<Rightarrow>
               (case GetUserSceneHistory (clientService s) userID of
                  Inl err \<Rightarrow>
                    Return (JSON (Status c StatusInternalServerError) (error_Map err), None)
                | Inr sceneIDList \<Rightarrow>
                    Return (JSON (Status c StatusOK) (JObject [(''resources'', sceneIDList)]), None))))"

definition getSceneThumbnail ::
  "(Ctx \<Rightarrow> string + string) \<Rightarrow> (string \<Rightarrow> string + string) \<Rightarrow> 'r WebServer \<Rightarrow> 'e Handler" where
  "getSceneThumbnail ValidateRequest ReadFile s c =
     (case ValidateRequest c of
        Inl err \<Rightarrow> Return (JSON (Status c StatusBadRequest) (error_Map err), None)
      | Inr req_SceneID \<Rightarrow>
          (case Locals c ''userID'' of
             None \<Rightarrow> Panic
           | Some uid \<Rightarrow>
               (case ObjectIDFromHex uid of
                  Inl err \<Rightarrow>
                    Return (JSON (Status c StatusBadRequest) (error_Map ''Invalid user ID''), None)
                | Inr userID \<Rightarrow>
                    (case ObjectIDFromHex req_SceneID of
                       Inl err \<Rightarrow>
                         Return (JSON (Status c StatusBadRequest) (error_Map ''Invalid scene ID''), None)
                     | Inr sceneID \<Rightarrow>
                         (case GetSceneThumbnailPath (clientService s) userID sceneID of
                            Inl err \<Rightarrow>
                              Return (JSON (Status c StatusInternalServerError) (error_Map err), None)
                          | Inr thumbnailPath \<Rightarrow>
                              (case ReadFile thumbnailPath of
                                 Inl err \<Rightarrow>
                                   Return (JSON (Status c StatusInternalServerError) (error_Map err),
                                     None)
                               | Inr thumbnailData \<Rightarrow>
                                   Return (Send (Status c StatusOK) thumbnailData, None)))))))"

definition getSceneName ::
  "(Ctx \<Rightarrow> string + string) \<Rightarrow> 'r WebServer \<Rightarrow> 'e Handler" where
  "getSceneName ValidateRequest s c =
     (case ValidateRequest c of
        Inl err \<Rightarrow> Return (JSON (Status c StatusBadRequest) (error_Map err), None)
      | Inr req_SceneID \<Rightarrow>
          (case ObjectIDFromHex req_SceneID of
             Inl err \<Rightarrow> Return (JSON (Status c StatusBadRequest) (error_Map ''Invalid scene ID''), None)
           | Inr sceneID \<Rightarrow>
               (case Locals c ''userID'' of
                  None \<Rightarrow> Panic
                | Some uid \<Rightarrow>
                    (case ObjectIDFromHex uid of
                       Inl err \<Rightarrow>
                         Return (JSON (Status c StatusBadRequest) (error_Map ''Invalid user ID''), None)
                     | Inr userID \<Rightarrow>
                         (case ClientService_GetSceneName (clientService s) userID sceneID of
                            Inl err \<Rightarrow>
                              Return (JSON (Status c StatusInternalServerError) (error_Map err), None)
                          | Inr sceneName \<Rightarrow>
                              Return (JSON (Status c StatusOK)
                                (JObject [(''scene_name'', JString sceneName)]), None))))))"

section \<open>Concrete inputs\<close>

text \<open>Two scene identifiers, and a collection handle that reports nothing matched and nothing upserted.\<close>

abbreviation scene1 :: ObjectID where
  "scene1 \<equiv> ObjectID [0x50, 0x7f, 0x1f, 0x77, 0xbc, 0xf8, 0x6c, 0xd7, 0x99, 0x43, 0x90, 0x11]"

abbreviation scene2 :: ObjectID where
  "scene2 \<equiv> ObjectID [0x50, 0x7f, 0x1f, 0x77, 0xbc, 0xf8, 0x6c, 0xd7, 0x99, 0x43, 0x90, 0x12]"

definition deaf :: "(unit, nat) Collection" where
  "deaf = \<lparr>UpdateOne = (\<lambda>ctx oid sets upsert s. (s, Inr \<lparr>MatchedCount = 0, UpsertedCount = 0\<rparr>)),
           FindOne = (\<lambda>ctx oid s. Inl ErrNoDocuments),
           DeleteOne = (\<lambda>ctx oid s. (s, Inr \<lparr>DeletedCount = 0\<rparr>))\<rparr>"

text \<open>
  A request with an \<open>Authorization\<close> header, a server, a handler that marks the response,
  and two stand-ins for \<open>jwt.Parse\<close>: one that rejects every token, one that accepts every
  token as signed for a given \<open>sub\<close>.
\<close>

definition no_service :: "unit ClientService" where
  "no_service = \<lparr>HandleIncomingVideo = (\<lambda>userID req. Inl ''unavailable''),
     GetSceneMetadata = (\<lambda>userID sceneID. Inl ''unavailable''),
     GetUserSceneHistory = (\<lambda>userID. Inl ''unavailable''),
     GetSceneThumbnailPath = (\<lambda>userID sceneID. Inl ''unavailable''),
     ClientService_GetSceneName = (\<lambda>userID sceneID. Inl ''unavailable'')\<rparr>"

definition request :: "string \<Rightarrow> Ctx" where
  "request authorization = \<lparr>request_headers = [''Authorization'' \<mapsto> authorization],
      locals = Map.empty, response_status = StatusOK, response_body = NoBody\<rparr>"

definition server :: "unit WebServer" where
  "server = \<lparr>jwtSecret = ''secret'', clientService = no_service\<rparr>"

definition reject_all :: Parse where
  "reject_all tokenString keyFunc = (None, Some ValidationErrorMalformed)"

definition accept_as :: "string \<Rightarrow> Parse" where
  "accept_as sub tokenString keyFunc =
     (Some \<lparr>Raw = tokenString, Header = Map.empty, Claims = MapClaims [''sub'' \<mapsto> JString sub],
            Signature = [], Valid = True\<rparr>, None)"

definition probe :: "unit Handler" where
  "probe c = Return (Send (Status c StatusOK) ''reached'', None)"

text \<open>
  All checks of \<open>tokenRequired\<close> pass for the identity \<open>userID\<close>: the header is
  \<open>Bearer <token>\<close>, the token parses without error and is valid, its claims are a
  \<open>MapClaims\<close>, and \<open>sub\<close> is the string \<open>userID\<close>.
\<close>

definition passes :: "Parse \<Rightarrow> 'r WebServer \<Rightarrow> Ctx \<Rightarrow> string \<Rightarrow> bool" where
  "passes jwt_Parse s c userID =
     (Get c ''Authorization'' \<noteq> [] \<and>
      (\<exists>tokenString token claims.
         Split (Get c ''Authorization'') CHR '' '' = [''Bearer'', tokenString]
       \<and> jwt_Parse tokenString (\<lambda>token. Inr (jwtSecret s)) = (Some token, None)
       \<and> Valid token
       \<and> Claims token = MapClaims claims
       \<and> claims ''sub'' = Some (JString userID)))"

section \<open>Properties of the scene store\<close>

lemma mongo_sel [simp]:
  "UpdateOne mongo = mongo_UpdateOne" "FindOne mongo = mongo_FindOne" "DeleteOne mongo = mongo_DeleteOne"
  "collection NewSceneManager = mongo"
  by (simp_all add: mongo_def NewSceneManager_def)

lemmas getters = GetVideo_def GetSfm_def GetNerf_def GetTrainingConfig_def GetSceneName_def
lemmas setters = SetVideo_def SetSfm_def SetNerf_def SetTrainingConfig_def SetSceneName_def

lemma mongo_upsert:
  "ctx_Err ctx = None \<Longrightarrow>
   mongo_UpdateOne ctx oid sets True s =
     (s(oid \<mapsto> apply_set sets (case s oid of None \<Rightarrow> Map.empty | Some doc \<Rightarrow> doc)),
      Inr \<lparr>MatchedCount = (if s oid = None then 0 else 1),
           UpsertedCount = (if s oid = None then 1 else 0)\<rparr>)"
  by (simp add: mongo_UpdateOne_def split: option.splits)

lemma mongo_update_done:
  "ctx_Err ctx = Some err \<Longrightarrow> mongo_UpdateOne ctx oid sets True s = (s, Inl err)"
  by (simp add: mongo_UpdateOne_def)

lemma delete_scene_mongo:
  "DeleteScene NewSceneManager ctx oid s =
     (case ctx_Err ctx of
        Some err \<Rightarrow> (s, Some (DriverError err))
      | None \<Rightarrow> (case s oid of None \<Rightarrow> (s, Some ErrSceneNotFound)
                 | Some doc \<Rightarrow> (s(oid := None), None)))"
  by (simp add: DeleteScene_def mongo_DeleteOne_def split: option.splits)

lemma get_missing:
  assumes "ctx_Err ctx = None" "s oid = None"
  shows "GetVideo NewSceneManager ctx oid s = Inl ErrSceneNotFound"
    "GetSfm NewSceneManager ctx oid s = Inl ErrSceneNotFound"
    "GetNerf NewSceneManager ctx oid s = Inl ErrSceneNotFound"
    "GetTrainingConfig NewSceneManager ctx oid s = Inl ErrSceneNotFound"
    "GetSceneName NewSceneManager ctx oid s = Inl ErrSceneNotFound"
  using assms by (simp_all add: getters Decode_def mongo_FindOne_def)

lemma set_mongo:
  "SetVideo NewSceneManager ctx oid vid s =
     (case ctx_Err ctx of Some err \<Rightarrow> (s, Some (DriverError err))
      | None \<Rightarrow> (s(oid \<mapsto> (case s oid of None \<Rightarrow> Map.empty | Some doc \<Rightarrow> doc)(''video'' \<mapsto> marshal_ptr vid)), None))"
  "SetSfm NewSceneManager ctx oid sfm s =
     (case ctx_Err ctx of Some err \<Rightarrow> (s, Some (DriverError err))
      | None \<Rightarrow> (s(oid \<mapsto> (case s oid of None \<Rightarrow> Map.empty | Some doc \<Rightarrow> doc)(''sfm'' \<mapsto> marshal_ptr sfm)), None))"
  "SetNerf NewSceneManager ctx oid nerf s =
     (case ctx_Err ctx of Some err \<Rightarrow> (s, Some (DriverError err))
      | None \<Rightarrow> (s(oid \<mapsto> (case s oid of None \<Rightarrow> Map.empty | Some doc \<Rightarrow> doc)(''nerf'' \<mapsto> marshal_ptr nerf)), None))"
  "SetTrainingConfig NewSceneManager ctx oid config s =
     (case ctx_Err ctx of Some err \<Rightarrow> (s, Some (DriverError err))
      | None \<Rightarrow> (s(oid \<mapsto> (case s oid of None \<Rightarrow> Map.empty | Some doc \<Rightarrow> doc)(''config'' \<mapsto> marshal_ptr config)), None))"
  "SetSceneName NewSceneManager ctx oid name s =
     (case ctx_Err ctx of Some err \<Rightarrow> (s, Some (DriverError err))
      | None \<Rightarrow> (s(oid \<mapsto> (case s oid of None \<Rightarrow> Map.empty | Some doc \<Rightarrow> doc)(''name'' \<mapsto> BString name)), None))"
  by (simp_all add: setters mongo_upsert mongo_update_done split: option.splits)

lemma get_video_field:
  "ctx_Err ctx = None \<Longrightarrow> s oid \<noteq> None \<Longrightarrow> field s oid ''video'' = None \<Longrightarrow>
   GetVideo NewSceneManager ctx oid s = Inl ErrVideoNotFound"
  by (auto simp: GetVideo_def Decode_def mongo_FindOne_def field_def)

text \<open>
  C2: With a context that is not done, every getter but \<open>GetSceneName\<close> fails with
  \<open>ErrSceneNotFound\<close> when the collection has no document for the identifier, and with the
  not-found error of its own sub-resource when the document exists and lacks that key; the
  scene error differs from each of the four sub-resource errors.
\<close>

theorem get_not_found_precision:
  assumes "ctx_Err ctx = None"
  shows "(s oid = None \<longrightarrow>
            GetNerf NewSceneManager ctx oid s = Inl ErrSceneNotFound
          \<and> GetVideo NewSceneManager ctx oid s = Inl ErrSceneNotFound
          \<and> GetSfm NewSceneManager ctx oid s = Inl ErrSceneNotFound
          \<and> GetTrainingConfig NewSceneManager ctx oid s = Inl ErrSceneNotFound)
       \<and> (\<forall>doc. s oid = Some doc \<longrightarrow>
            (doc ''nerf'' = None \<longrightarrow> GetNerf NewSceneManager ctx oid s = Inl ErrNerfNotFound)
          \<and> (doc ''video'' = None \<longrightarrow> GetVideo NewSceneManager ctx oid s = Inl ErrVideoNotFound)
          \<and> (doc ''sfm'' = None \<longrightarrow> GetSfm NewSceneManager ctx oid s = Inl ErrSfmNotFound)
          \<and> (doc ''config'' = None \<longrightarrow>
                GetTrainingConfig NewSceneManager ctx oid s = Inl ErrTrainingConfigNotFound))
       \<and> ErrSceneNotFound \<notin> {ErrNerfNotFound, ErrVideoNotFound, ErrSfmNotFound, ErrTrainingConfigNotFound}"
  using assms by (simp add: getters Decode_def mongo_FindOne_def)

theorem get_not_found_precision_witness:
  "ctx_Err TODO = None
   \<and> GetNerf NewSceneManager TODO scene1 (Map.empty :: nat store) = Inl ErrSceneNotFound
   \<and> GetNerf NewSceneManager TODO scene1
        [scene1 \<mapsto> [''video'' \<mapsto> BDocument (7::nat)]] = Inl ErrNerfNotFound"
  using get_not_found_precision [of TODO "[scene1 \<mapsto> [''video'' \<mapsto> BDocument (7::nat)]]" "scene1"]
   get_not_found_precision [of TODO "Map.empty :: nat store" "scene1"]
  by simp

text \<open>
  C3: On a MongoDB collection and with a context that is not done, each of the five setters
  returns no error, whether the document was there or not, and the document is there
  afterwards. On any collection handle, a setter returns \<open>ErrSceneNotFound\<close> exactly when
  its \<open>UpdateOne\<close> returned a result with \<open>MatchedCount\<close> and \<open>UpsertedCount\<close> both 0.
\<close>

theorem set_upsert_outcome:
  "(ctx_Err ctx = None \<longrightarrow>
      snd (SetVideo NewSceneManager ctx oid vid s) = None
    \<and> snd (SetSfm NewSceneManager ctx oid sfm s) = None
    \<and> snd (SetNerf NewSceneManager ctx oid nerf s) = None
    \<and> snd (SetTrainingConfig NewSceneManager ctx oid config s) = None
    \<and> snd (SetSceneName NewSceneManager ctx oid name s) = None
    \<and> fst (SetVideo NewSceneManager ctx oid vid s) oid \<noteq> None
    \<and> fst (SetSfm NewSceneManager ctx oid sfm s) oid \<noteq> None
    \<and> fst (SetNerf NewSceneManager ctx oid nerf s) oid \<noteq> None
    \<and> fst (SetTrainingConfig NewSceneManager ctx oid config s) oid \<noteq> None
    \<and> fst (SetSceneName NewSceneManager ctx oid name s) oid \<noteq> None)
   \<and> (snd (SetVideo sm ctx oid vid t) = Some ErrSceneNotFound) =
       (\<exists>r. snd (UpdateOne (collection sm) ctx oid [(''video'', marshal_ptr vid)] True t) = Inr r
            \<and> MatchedCount r = 0 \<and> UpsertedCount r = 0)
   \<and> (snd (SetSfm sm ctx oid sfm t) = Some ErrSceneNotFound) =
       (\<exists>r. snd (UpdateOne (collection sm) ctx oid [(''sfm'', marshal_ptr sfm)] True t) = Inr r
            \<and> MatchedCount r = 0 \<and> UpsertedCount r = 0)
   \<and> (snd (SetNerf sm ctx oid nerf t) = Some ErrSceneNotFound) =
       (\<exists>r. snd (UpdateOne (collection sm) ctx oid [(''nerf'', marshal_ptr nerf)] True t) = Inr r
            \<and> MatchedCount r = 0 \<and> UpsertedCount r = 0)
   \<and> (snd (SetTrainingConfig sm ctx oid config t) = Some ErrSceneNotFound) =
       (\<exists>r. snd (UpdateOne (collection sm) ctx oid [(''config'', marshal_ptr config)] True t) = Inr r
            \<and> MatchedCount r = 0 \<and> UpsertedCount r = 0)
   \<and> (snd (SetSceneName sm ctx oid name t) = Some ErrSceneNotFound) =
       (\<exists>r. snd (UpdateOne (collection sm) ctx oid [(''name'', BString name)] True t) = Inr r
            \<and> MatchedCount r = 0 \<and> UpsertedCount r = 0)"
proof -
  have ok: "ctx_Err ctx = None \<Longrightarrow>
      snd (SetVideo NewSceneManager ctx oid vid s) = None
    \<and> snd (SetSfm NewSceneManager ctx oid sfm s) = None
    \<and> snd (SetNerf NewSceneManager ctx oid nerf s) = None
    \<and> snd (SetTrainingConfig NewSceneManager ctx oid config s) = None
    \<and> snd (SetSceneName NewSceneManager ctx oid name s) = None
    \<and> fst (SetVideo NewSceneManager ctx oid vid s) oid \<noteq> None
    \<and> fst (SetSfm NewSceneManager ctx oid sfm s) oid \<noteq> None
    \<and> fst (SetNerf NewSceneManager ctx oid nerf s) oid \<noteq> None
    \<and> fst (SetTrainingConfig NewSceneManager ctx oid config s) oid \<noteq> None
    \<and> fst (SetSceneName NewSceneManager ctx oid name s) oid \<noteq> None"
    by (simp add: setters mongo_upsert)
  have nf: "\<And>sets. (snd (case UpdateOne (collection sm) ctx oid sets True t of
        (s', Inl err) \<Rightarrow> (s', Some (DriverError err))
      | (s', Inr result) \<Rightarrow>
          if MatchedCount result = 0 \<and> UpsertedCount result = 0
          then (s', Some ErrSceneNotFound)
          else (s', None)) = Some ErrSceneNotFound) =
       (\<exists>r. snd (UpdateOne (collection sm) ctx oid sets True t) = Inr r
            \<and> MatchedCount r = 0 \<and> UpsertedCount r = 0)"
    by (auto split: prod.splits sum.splits if_splits)
  show ?thesis using ok by (simp only: setters nf) simp
qed

theorem set_upsert_outcome_witness:
  "ctx_Err TODO = None
   \<and> snd (SetVideo NewSceneManager TODO scene1 (Some (7::nat)) Map.empty) = None
   \<and> fst (SetVideo NewSceneManager TODO scene1 (Some (7::nat)) Map.empty) scene1 \<noteq> None
   \<and> snd (SetVideo NewSceneManager TODO scene1 (Some (7::nat)) [scene1 \<mapsto> Map.empty]) = None
   \<and> snd (SetVideo \<lparr>collection = deaf\<rparr> TODO scene1 (Some 7) ()) = Some ErrSceneNotFound"
  using set_upsert_outcome [of TODO scene1 "Some (7::nat)" Map.empty]
        set_upsert_outcome [of TODO scene1 "Some (7::nat)" "[scene1 \<mapsto> Map.empty]"]
        set_upsert_outcome [where ctx = TODO and vid = "Some 7" and oid = scene1
          and sm = "\<lparr>collection = deaf\<rparr>" and t = "()"]
  by (simp add: deaf_def)

text \<open>
  C4: After a \<open>DeleteScene\<close> that returned no error, the document is gone with all its
  fields, each of the five getters fails with \<open>ErrSceneNotFound\<close> on that identifier, and
  so does a second \<open>DeleteScene\<close> (the later calls with a context that is not done).
\<close>

theorem delete_then_not_found:
  assumes "DeleteScene NewSceneManager ctx oid s = (s', None)" and "ctx_Err ctx' = None"
  shows "GetVideo NewSceneManager ctx' oid s' = Inl ErrSceneNotFound
       \<and> GetSfm NewSceneManager ctx' oid s' = Inl ErrSceneNotFound
       \<and> GetNerf NewSceneManager ctx' oid s' = Inl ErrSceneNotFound
       \<and> GetTrainingConfig NewSceneManager ctx' oid s' = Inl ErrSceneNotFound
       \<and> GetSceneName NewSceneManager ctx' oid s' = Inl ErrSceneNotFound
       \<and> DeleteScene NewSceneManager ctx' oid s' = (s', Some ErrSceneNotFound)
       \<and> s oid \<noteq> None \<and> s' = s(oid := None)
       \<and> (\<forall>key. field s' oid key = None)"
proof -
  from assms(1) have s': "s' = s(oid := None)" and ex: "s oid \<noteq> None"
    by (auto simp: delete_scene_mongo split: option.splits)
  then have gone: "s' oid = None" by simp
  show ?thesis
    using get_missing [where ctx = ctx' and s = s' and oid = oid, OF assms(2) gone]
      gone ex s' assms(2)
    by (simp add: delete_scene_mongo field_def)
qed

theorem delete_then_not_found_witness:
  "DeleteScene NewSceneManager TODO scene1 [scene1 \<mapsto> [''video'' \<mapsto> BDocument (7::nat)]]
      = (Map.empty, None)
   \<and> ctx_Err TODO = None
   \<and> GetVideo NewSceneManager TODO scene1 (Map.empty :: nat store) = Inl ErrSceneNotFound
   \<and> DeleteScene NewSceneManager TODO scene1 (Map.empty :: nat store)
        = (Map.empty, Some ErrSceneNotFound)"
proof -
  have d: "DeleteScene NewSceneManager TODO scene1 [scene1 \<mapsto> [''video'' \<mapsto> BDocument (7::nat)]]
      = (Map.empty, None)"
    by (simp add: DeleteScene_def mongo_DeleteOne_def)
  have c: "ctx_Err TODO = None" by simp
  show ?thesis using delete_then_not_found [OF d c] d c by simp
qed

text \<open>
  C6: When the scene has no video (no document, or a document without the key), \<open>SetSfm\<close>
  with a context that is not done returns no error, stores the sfm, leaves the video absent,
  and \<open>GetVideo\<close> then fails with \<open>ErrVideoNotFound\<close>. Each setter leaves every field of
  every document unchanged but the one under its own key in the document it addresses.
\<close>

theorem set_sfm_stage_independence:
  "(ctx_Err ctx = None \<and> field s oid ''video'' = None \<longrightarrow>
      snd (SetSfm NewSceneManager ctx oid sfm s) = None
    \<and> field (fst (SetSfm NewSceneManager ctx oid sfm s)) oid ''video'' = None
    \<and> field (fst (SetSfm NewSceneManager ctx oid sfm s)) oid ''sfm'' = Some (marshal_ptr sfm)
    \<and> (ctx_Err ctx' = None \<longrightarrow>
         GetVideo NewSceneManager ctx' oid (fst (SetSfm NewSceneManager ctx oid sfm s))
           = Inl ErrVideoNotFound))
   \<and> (oid' \<noteq> oid \<or> key \<noteq> ''video'' \<longrightarrow>
        field (fst (SetVideo NewSceneManager ctx oid vid s)) oid' key = field s oid' key)
   \<and> (oid' \<noteq> oid \<or> key \<noteq> ''sfm'' \<longrightarrow>
        field (fst (SetSfm NewSceneManager ctx oid sfm s)) oid' key = field s oid' key)
   \<and> (oid' \<noteq> oid \<or> key \<noteq> ''nerf'' \<longrightarrow>
        field (fst (SetNerf NewSceneManager ctx oid nerf s)) oid' key = field s oid' key)
   \<and> (oid' \<noteq> oid \<or> key \<noteq> ''config'' \<longrightarrow>
        field (fst (SetTrainingConfig NewSceneManager ctx oid config s)) oid' key = field s oid' key)
   \<and> (oid' \<noteq> oid \<or> key \<noteq> ''name'' \<longrightarrow>
        field (fst (SetSceneName NewSceneManager ctx oid name s)) oid' key = field s oid' key)"
  by (cases "ctx_Err ctx")
     (auto simp: set_mongo field_def GetVideo_def Decode_def mongo_FindOne_def
           split: option.splits)

theorem set_sfm_stage_independence_witness:
  "ctx_Err TODO = None
   \<and> field [scene1 \<mapsto> [''name'' \<mapsto> BString ''lego'']] scene1 ''video'' = (None :: nat bson option)
   \<and> snd (SetSfm NewSceneManager TODO scene1 (Some (3::nat))
            [scene1 \<mapsto> [''name'' \<mapsto> BString ''lego'']]) = None
   \<and> field (fst (SetSfm NewSceneManager TODO scene1 (Some (3::nat))
            [scene1 \<mapsto> [''name'' \<mapsto> BString ''lego'']])) scene1 ''video'' = None
   \<and> GetVideo NewSceneManager TODO scene1
        (fst (SetSfm NewSceneManager TODO scene1 (Some (3::nat))
            [scene1 \<mapsto> [''name'' \<mapsto> BString ''lego'']])) = Inl ErrVideoNotFound
   \<and> field (fst (SetSfm NewSceneManager TODO scene1 (Some (3::nat))
            [scene1 \<mapsto> [''name'' \<mapsto> BString ''lego'']])) scene1 ''name''
        = Some (BString ''lego'')"
  using set_sfm_stage_independence [where ctx = TODO and ctx' = TODO and oid = scene1
      and oid' = scene1 and key = "''name''" and sfm = "Some (3::nat)"
      and s = "[scene1 \<mapsto> [''name'' \<mapsto> BString ''lego'']]"]
  by (simp add: field_def)

text \<open>
  C7: After two calls of \<open>SetVideo\<close> with the same identifier and value, the second with a
  context that is not done, the second call returned no error and the stored video is that
  value; if the first call succeeded the second changed nothing; no other field changed;
  and \<open>GetVideo\<close> returns the value when it is not nil.
\<close>

theorem set_video_idempotent:
  assumes "SetVideo NewSceneManager ctx1 oid v s = (s1, e1)"
      and "SetVideo NewSceneManager ctx2 oid v s1 = (s2, e2)"
      and "ctx_Err ctx2 = None"
  shows "e2 = None \<and> field s2 oid ''video'' = Some (marshal_ptr v)
       \<and> (e1 = None \<longrightarrow> s2 = s1)
       \<and> (\<forall>oid' key. oid' \<noteq> oid \<or> key \<noteq> ''video'' \<longrightarrow> field s2 oid' key = field s oid' key)
       \<and> (\<forall>video. v = Some video \<and> ctx_Err ctx3 = None \<longrightarrow>
             GetVideo NewSceneManager ctx3 oid s2 = Inr video)"
proof -
  let ?d = "\<lambda>t. case t oid of None \<Rightarrow> Map.empty | Some doc \<Rightarrow> doc"
  from assms(2,3) have s2: "s2 = s1(oid \<mapsto> (?d s1)(''video'' \<mapsto> marshal_ptr v))"
    and e2: "e2 = None"
    by (simp_all add: set_mongo)
  from assms(1) have s1: "s1 = s \<or> s1 = s(oid \<mapsto> (?d s)(''video'' \<mapsto> marshal_ptr v))"
    and e1: "e1 = None \<longrightarrow> s1 = s(oid \<mapsto> (?d s)(''video'' \<mapsto> marshal_ptr v))"
    by (auto simp: set_mongo split: option.splits)
  have stored: "field s2 oid ''video'' = Some (marshal_ptr v)"
    by (simp add: s2 field_def)
  have same: "e1 = None \<longrightarrow> s2 = s1"
    using e1 by (auto simp: s2)
  have frame: "\<forall>oid' key. oid' \<noteq> oid \<or> key \<noteq> ''video'' \<longrightarrow> field s2 oid' key = field s oid' key"
    using s1 by (auto simp: s2 field_def split: option.splits)
  have read: "\<forall>video. v = Some video \<and> ctx_Err ctx3 = None \<longrightarrow>
             GetVideo NewSceneManager ctx3 oid s2 = Inr video"
    by (auto simp: s2 GetVideo_def Decode_def mongo_FindOne_def)
  show ?thesis using e2 stored same frame read by blast
qed

theorem set_video_idempotent_witness:
  "SetVideo NewSceneManager TODO scene1 (Some (7::nat)) Map.empty
     = ([scene1 \<mapsto> [''video'' \<mapsto> BDocument 7]], None)
   \<and> SetVideo NewSceneManager TODO scene1 (Some (7::nat)) [scene1 \<mapsto> [''video'' \<mapsto> BDocument 7]]
     = ([scene1 \<mapsto> [''video'' \<mapsto> BDocument 7]], None)
   \<and> ctx_Err TODO = None
   \<and> field [scene1 \<mapsto> [''video'' \<mapsto> BDocument (7::nat)]] scene1 ''video'' = Some (BDocument 7)
   \<and> GetVideo NewSceneManager TODO scene1 [scene1 \<mapsto> [''video'' \<mapsto> BDocument (7::nat)]] = Inr 7"
proof -
  have a: "SetVideo NewSceneManager TODO scene1 (Some (7::nat)) Map.empty
     = ([scene1 \<mapsto> [''video'' \<mapsto> BDocument 7]], None)"
    by (simp add: SetVideo_def mongo_UpdateOne_def)
  have b: "SetVideo NewSceneManager TODO scene1 (Some (7::nat)) [scene1 \<mapsto> [''video'' \<mapsto> BDocument 7]]
     = ([scene1 \<mapsto> [''video'' \<mapsto> BDocument 7]], None)"
    by (simp add: SetVideo_def mongo_UpdateOne_def)
  have c: "ctx_Err TODO = None" by simp
  show ?thesis
    using set_video_idempotent [OF a b c, of TODO] a b c by simp
qed

text \<open>
  C8: With a context that is not done, \<open>GetSceneName\<close> fails with \<open>ErrSceneNotFound\<close>
  when there is no document, and returns the empty string and no error when the document
  has no name; \<open>GetVideo\<close> on a document without a video fails with \<open>ErrVideoNotFound\<close>.
\<close>

theorem get_scene_name_asymmetry:
  assumes "ctx_Err ctx = None"
  shows "(s oid = None \<longrightarrow> GetSceneName NewSceneManager ctx oid s = Inl ErrSceneNotFound)
       \<and> (\<forall>doc. s oid = Some doc \<and> doc ''name'' = None \<longrightarrow>
             GetSceneName NewSceneManager ctx oid s = Inr [])
       \<and> (\<forall>doc. s oid = Some doc \<and> doc ''video'' = None \<longrightarrow>
             GetVideo NewSceneManager ctx oid s = Inl ErrVideoNotFound)"
  using assms by (auto simp: getters Decode_def mongo_FindOne_def)

theorem get_scene_name_asymmetry_witness:
  "ctx_Err TODO = None
   \<and> GetSceneName NewSceneManager TODO scene1 (Map.empty :: nat store) = Inl ErrSceneNotFound
   \<and> GetSceneName NewSceneManager TODO scene1 [scene1 \<mapsto> [''sfm'' \<mapsto> BDocument (3::nat)]] = Inr []
   \<and> GetVideo NewSceneManager TODO scene1 [scene1 \<mapsto> [''sfm'' \<mapsto> BDocument (3::nat)]]
       = Inl ErrVideoNotFound"
  using get_scene_name_asymmetry [of TODO "Map.empty :: nat store" scene1]
        get_scene_name_asymmetry [of TODO "[scene1 \<mapsto> [''sfm'' \<mapsto> BDocument (3::nat)]]" scene1]
  by simp

text \<open>
  C10: \<open>DeleteScene\<close> of one identifier leaves the document of any other identifier as it
  was: the collection changes at most at the deleted identifier, and each of the five
  getters returns on the other identifier what it returned before.
\<close>

theorem delete_scene_frame:
  assumes "id1 \<noteq> id2"
  shows "fst (DeleteScene NewSceneManager ctx id1 s) id2 = s id2
       \<and> (\<forall>oid. fst (DeleteScene NewSceneManager ctx id1 s) oid \<noteq> s oid \<longrightarrow> oid = id1)
       \<and> GetVideo NewSceneManager ctx' id2 (fst (DeleteScene NewSceneManager ctx id1 s))
           = GetVideo NewSceneManager ctx' id2 s
       \<and> GetSfm NewSceneManager ctx' id2 (fst (DeleteScene NewSceneManager ctx id1 s))
           = GetSfm NewSceneManager ctx' id2 s
       \<and> GetNerf NewSceneManager ctx' id2 (fst (DeleteScene NewSceneManager ctx id1 s))
           = GetNerf NewSceneManager ctx' id2 s
       \<and> GetTrainingConfig NewSceneManager ctx' id2 (fst (DeleteScene NewSceneManager ctx id1 s))
           = GetTrainingConfig NewSceneManager ctx' id2 s
       \<and> GetSceneName NewSceneManager ctx' id2 (fst (DeleteScene NewSceneManager ctx id1 s))
           = GetSceneName NewSceneManager ctx' id2 s"
  using assms
  by (auto simp: delete_scene_mongo getters Decode_def mongo_FindOne_def split: option.splits)


theorem delete_scene_frame_witness:
  "scene1 \<noteq> scene2
   \<and> fst (DeleteScene NewSceneManager TODO scene1
        [scene1 \<mapsto> [''video'' \<mapsto> BDocument (7::nat)], scene2 \<mapsto> [''video'' \<mapsto> BDocument 8]]) scene2
       = Some [''video'' \<mapsto> BDocument 8]
   \<and> GetVideo NewSceneManager TODO scene2 (fst (DeleteScene NewSceneManager TODO scene1
        [scene1 \<mapsto> [''video'' \<mapsto> BDocument (7::nat)], scene2 \<mapsto> [''video'' \<mapsto> BDocument 8]]))
       = Inr 8"
proof -
  have n: "scene1 \<noteq> scene2" by simp
  show ?thesis
    using delete_scene_frame [OF n, of TODO
        "[scene1 \<mapsto> [''video'' \<mapsto> BDocument (7::nat)], scene2 \<mapsto> [''video'' \<mapsto> BDocument 8]]" TODO] n
    by (simp add: GetVideo_def Decode_def mongo_FindOne_def)
qed

section \<open>Properties of the gateway\<close>

lemma length2: "length xs = 2 \<Longrightarrow> xs = [xs ! 0, xs ! 1]"
  by (cases xs; cases "tl xs") auto

lemma token_required_cases:
  fixes handler :: "'e Handler"
  shows "tokenRequired jwt_Parse s handler c =
     (if Get c ''Authorization'' = [] then
        Return (JSON (Status c StatusUnauthorized) (error_Map ''Missing Authorization header''), None)
      else if length (Split (Get c ''Authorization'') CHR '' '') \<noteq> 2
            \<or> Split (Get c ''Authorization'') CHR '' '' ! 0 \<noteq> ''Bearer'' then
          Return (JSON (Status c StatusUnauthorized)
            (error_Map ''Invalid Authorization header format. Expected: `Bearer <token>`''), None)
      else (case jwt_Parse (Split (Get c ''Authorization'') CHR '' '' ! 1) (\<lambda>token. Inr (jwtSecret s)) of
             (_, Some err) \<Rightarrow>
               Return (JSON (Status c StatusUnauthorized) (error_Map ''Invalid token''), None)
           | (None, None) \<Rightarrow> Panic
           | (Some token, None) \<Rightarrow>
               if \<not> Valid token then
                 Return (JSON (Status c StatusUnauthorized) (error_Map ''Invalid token''), None)
               else
                 (case Claims token of
                    OtherClaims \<Rightarrow>
                      Return (JSON (Status c StatusUnauthorized)
                        (error_Map ''Invalid token claims''), None)
                  | MapClaims claims \<Rightarrow>
                      (case claims ''sub'' of
                         Some (JString userID) \<Rightarrow> handler (Locals_set c ''userID'' userID)
                       | _ \<Rightarrow>
                           Return (JSON (Status c StatusUnauthorized)
                             (error_Map ''Invalid user ID in token''), None)))))"
  unfolding tokenRequired_def Let_def by (rule refl)

lemma unauthorized_status [simp]:
  "response_status (JSON (Status c code) data) = code"
  "locals (JSON (Status c code) data) = locals c"
  by (simp_all add: JSON_def Status_def)

lemma token_required_passes:
  fixes handler :: "'e Handler"
  assumes "passes jwt_Parse s c userID"
  shows "tokenRequired jwt_Parse s handler c = handler (Locals_set c ''userID'' userID)"
  using assms unfolding passes_def token_required_cases by auto

lemma after_parse:
  fixes c :: Ctx
  assumes "\<forall>token claims userID. tok = Some token \<and> err = None \<and> Valid token \<and>
        Claims token = MapClaims claims \<longrightarrow> claims ''sub'' \<noteq> Some (JString userID)"
  shows "\<exists>r. (if tok = None \<and> err = None then r = Panic
               else (\<exists>c'. r = Return (c', None) \<and> response_status c' = StatusUnauthorized
                   \<and> locals c' = locals c))
           \<and> (\<forall>handler :: 'e Handler.
               (case (tok, err) of
             (_, Some err) \<Rightarrow>
               Return (JSON (Status c StatusUnauthorized) (error_Map ''Invalid token''), None)
           | (None, None) \<Rightarrow> Panic
           | (Some token, None) \<Rightarrow>
               if \<not> Valid token then
                 Return (JSON (Status c StatusUnauthorized) (error_Map ''Invalid token''), None)
               else
                 (case Claims token of
                    OtherClaims \<Rightarrow>
                      Return (JSON (Status c StatusUnauthorized)
                        (error_Map ''Invalid token claims''), None)
                  | MapClaims claims \<Rightarrow>
                      (case claims ''sub'' of
                         Some (JString userID) \<Rightarrow> handler (Locals_set c ''userID'' userID)
                       | _ \<Rightarrow>
                           Return (JSON (Status c StatusUnauthorized)
                             (error_Map ''Invalid user ID in token''), None)))) = r)"
proof (cases err)
  case (Some e)
  then show ?thesis by (cases tok) simp_all
next
  case None
  note err = this
  show ?thesis
  proof (cases tok)
    case None
    then show ?thesis using err by simp
  next
    case (Some token)
    note tok = this
    show ?thesis
    proof (cases "Valid token")
      case False
      then show ?thesis using err tok by simp
    next
      case True
      note valid = this
      show ?thesis
      proof (cases "Claims token")
        case OtherClaims
        then show ?thesis using err tok valid by simp
      next
        case (MapClaims claims)
        note cl = this
        show ?thesis
        proof (cases "claims ''sub''")
          case None
          then show ?thesis using err tok valid cl by simp
        next
          case (Some j)
          then have "\<forall>userID. j \<noteq> JString userID"
            using assms tok err valid cl by auto
          then show ?thesis using err tok valid cl Some by (cases j) auto
        qed
      qed
    qed
  qed
qed

lemma token_required_not_passes:
  fixes c :: Ctx
  assumes "\<forall>userID. \<not> passes jwt_Parse s c userID"
  shows "\<exists>r. (if Get c ''Authorization'' \<noteq> []
                  \<and> length (Split (Get c ''Authorization'') CHR '' '') = 2
                  \<and> Split (Get c ''Authorization'') CHR '' '' ! 0 = ''Bearer''
                  \<and> jwt_Parse (Split (Get c ''Authorization'') CHR '' '' ! 1)
                        (\<lambda>token. Inr (jwtSecret s)) = (None, None)
               then r = Panic
               else (\<exists>c'. r = Return (c', None) \<and> response_status c' = StatusUnauthorized
                  \<and> locals c' = locals c))
           \<and> (\<forall>h :: 'e Handler. tokenRequired jwt_Parse s h c = r)"
proof (cases "Get c ''Authorization'' = []")
  case True
  then show ?thesis unfolding token_required_cases by auto
next
  case hdr: False
  show ?thesis
  proof (cases "length (Split (Get c ''Authorization'') CHR '' '') \<noteq> 2
            \<or> Split (Get c ''Authorization'') CHR '' '' ! 0 \<noteq> ''Bearer''")
    case True
    then show ?thesis using hdr unfolding token_required_cases by auto
  next
    case False
    then have sp: "Split (Get c ''Authorization'') CHR '' ''
        = [''Bearer'', Split (Get c ''Authorization'') CHR '' '' ! 1]"
      using length2 [of "Split (Get c ''Authorization'') CHR '' ''"] by auto
    obtain tok err where p: "jwt_Parse (Split (Get c ''Authorization'') CHR '' '' ! 1)
        (\<lambda>token. Inr (jwtSecret s)) = (tok, err)"
      by (cases "jwt_Parse (Split (Get c ''Authorization'') CHR '' '' ! 1)
        (\<lambda>token. Inr (jwtSecret s))") auto
    have np: "\<forall>token claims userID. tok = Some token \<and> err = None \<and> Valid token \<and>
        Claims token = MapClaims claims \<longrightarrow> claims ''sub'' \<noteq> Some (JString userID)"
      using assms hdr sp p unfolding passes_def by blast
    have eq: "tokenRequired jwt_Parse s h c = (case (tok, err) of
             (_, Some err) \<Rightarrow>
               Return (JSON (Status c StatusUnauthorized) (error_Map ''Invalid token''), None)
           | (None, None) \<Rightarrow> Panic
           | (Some token, None) \<Rightarrow>
               if \<not> Valid token then
                 Return (JSON (Status c StatusUnauthorized) (error_Map ''Invalid token''), None)
               else
                 (case Claims token of
                    OtherClaims \<Rightarrow>
                      Return (JSON (Status c StatusUnauthorized)
                        (error_Map ''Invalid token claims''), None)
                  | MapClaims claims \<Rightarrow>
                      (case claims ''sub'' of
                         Some (JString userID) \<Rightarrow> h (Locals_set c ''userID'' userID)
                       | _ \<Rightarrow>
                           Return (JSON (Status c StatusUnauthorized)
                             (error_Map ''Invalid user ID in token''), None))))" for h :: "'e Handler"
      unfolding token_required_cases using hdr False p by simp
    show ?thesis unfolding eq using after_parse [of tok err c, OF np] hdr False p by simp
  qed
qed

text \<open>
  C1: If the \<open>Authorization\<close> header is missing, or does not split at spaces into exactly
  two parts of which the first is \<open>Bearer\<close>, or \<open>jwt.Parse\<close> returns an error, or the
  token is not valid, or its claims are no \<open>MapClaims\<close>, or \<open>sub\<close> is missing or no
  string, then \<open>tokenRequired\<close> returns a response with status 401 that is the same for
  every handler, so the handler was not run. If the result depends on the handler at all,
  every check has passed; and when every check has passed the result is the handler's, run
  on the context with \<open>userID\<close> bound to \<open>sub\<close>.
\<close>

theorem token_required_gate:
  fixes handler :: "'e Handler"
  shows
  "(let authHeader = Get c ''Authorization'';
        parts = Split authHeader CHR '' '';
        parsed = jwt_Parse (parts ! 1) (\<lambda>token. Inr (jwtSecret s))
    in
      (authHeader = [] \<or> length parts \<noteq> 2 \<or> parts ! 0 \<noteq> ''Bearer''
       \<or> snd parsed \<noteq> None
       \<or> (\<exists>token. fst parsed = Some token
            \<and> (\<not> Valid token \<or> Claims token = OtherClaims
               \<or> (\<exists>claims. Claims token = MapClaims claims
                    \<and> (\<forall>userID. claims ''sub'' \<noteq> Some (JString userID)))))
       \<longrightarrow> (\<exists>c'. response_status c' = StatusUnauthorized \<and> locals c' = locals c
              \<and> (\<forall>h :: 'e Handler. tokenRequired jwt_Parse s h c = Return (c', None))))
    \<and> ((\<exists>h :: 'e Handler. tokenRequired jwt_Parse s h c \<noteq> tokenRequired jwt_Parse s handler c)
       \<longrightarrow> authHeader \<noteq> [] \<and> length parts = 2 \<and> parts ! 0 = ''Bearer''
           \<and> (\<exists>token claims userID. parsed = (Some token, None) \<and> Valid token
                \<and> Claims token = MapClaims claims \<and> claims ''sub'' = Some (JString userID)))
    \<and> (authHeader \<noteq> [] \<and> length parts = 2 \<and> parts ! 0 = ''Bearer''
        \<and> (\<exists>token claims. parsed = (Some token, None) \<and> Valid token
                \<and> Claims token = MapClaims claims \<and> claims ''sub'' = Some (JString sub))
       \<longrightarrow> tokenRequired jwt_Parse s handler c = handler (Locals_set c ''userID'' sub)))"
proof -
  let ?authHeader = "Get c ''Authorization''"
  let ?parts = "Split ?authHeader CHR '' ''"
  let ?parsed = "jwt_Parse (?parts ! 1) (\<lambda>token. Inr (jwtSecret s))"
  have pass_iff: "passes jwt_Parse s c userID =
      (?authHeader \<noteq> [] \<and> length ?parts = 2 \<and> ?parts ! 0 = ''Bearer''
        \<and> (\<exists>token claims. ?parsed = (Some token, None) \<and> Valid token
                \<and> Claims token = MapClaims claims \<and> claims ''sub'' = Some (JString userID)))"
    for userID
    unfolding passes_def using length2 [of ?parts] by auto
  have a: "\<exists>c'. response_status c' = StatusUnauthorized \<and> locals c' = locals c
              \<and> (\<forall>h :: 'e Handler. tokenRequired jwt_Parse s h c = Return (c', None))"
    if rej: "?authHeader = [] \<or> length ?parts \<noteq> 2 \<or> ?parts ! 0 \<noteq> ''Bearer''
       \<or> snd ?parsed \<noteq> None
       \<or> (\<exists>token. fst ?parsed = Some token
            \<and> (\<not> Valid token \<or> Claims token = OtherClaims
               \<or> (\<exists>claims. Claims token = MapClaims claims
                    \<and> (\<forall>userID. claims ''sub'' \<noteq> Some (JString userID)))))"
  proof -
    from rej have np: "\<forall>userID. \<not> passes jwt_Parse s c userID"
      unfolding pass_iff by auto
    from rej have npanic: "\<not> (?authHeader \<noteq> [] \<and> length ?parts = 2 \<and> ?parts ! 0 = ''Bearer''
        \<and> ?parsed = (None, None))"
      by auto
    from token_required_not_passes [OF np, where ?'e = 'e] npanic
    show ?thesis by auto
  qed
  have b: "?authHeader \<noteq> [] \<and> length ?parts = 2 \<and> ?parts ! 0 = ''Bearer''
           \<and> (\<exists>token claims userID. ?parsed = (Some token, None) \<and> Valid token
                \<and> Claims token = MapClaims claims \<and> claims ''sub'' = Some (JString userID))"
    if dep: "\<exists>h :: 'e Handler. tokenRequired jwt_Parse s h c \<noteq> tokenRequired jwt_Parse s handler c"
  proof (rule ccontr)
    assume "\<not> ?thesis"
    then have np: "\<forall>userID. \<not> passes jwt_Parse s c userID"
      unfolding pass_iff by blast
    from token_required_not_passes [OF np, where ?'e = 'e] dep
    show False by metis
  qed
  have c: "tokenRequired jwt_Parse s handler c = handler (Locals_set c ''userID'' sub)"
    if "?authHeader \<noteq> [] \<and> length ?parts = 2 \<and> ?parts ! 0 = ''Bearer''
        \<and> (\<exists>token claims. ?parsed = (Some token, None) \<and> Valid token
                \<and> Claims token = MapClaims claims \<and> claims ''sub'' = Some (JString sub))"
    using that token_required_passes [of jwt_Parse s c sub handler] unfolding pass_iff by blast
  show ?thesis unfolding Let_def using a b c by blast
qed

theorem token_required_gate_witness:
  "(\<exists>c'. response_status c' = StatusUnauthorized
      \<and> (\<forall>h :: unit Handler.
           tokenRequired reject_all server h (request ''Bearer garbage'') = Return (c', None)))
   \<and> (\<exists>c'. response_status c' = StatusUnauthorized
      \<and> (\<forall>h :: unit Handler.
           tokenRequired (accept_as ''alice'') server h (request ''Token abc'') = Return (c', None)))
   \<and> tokenRequired (accept_as ''alice'') server probe (request ''Bearer abc'')
       = probe (Locals_set (request ''Bearer abc'') ''userID'' ''alice'')"
proof -
  have bad_token: "\<exists>c'. response_status c' = StatusUnauthorized
      \<and> (\<forall>h :: unit Handler.
           tokenRequired reject_all server h (request ''Bearer garbage'') = Return (c', None))"
    using token_required_gate [where c = "request ''Bearer garbage''" and jwt_Parse = reject_all
          and s = server and handler = probe]
    by (simp add: Let_def request_def Get_def reject_all_def) blast
  have bad_header: "\<exists>c'. response_status c' = StatusUnauthorized
      \<and> (\<forall>h :: unit Handler.
           tokenRequired (accept_as ''alice'') server h (request ''Token abc'') = Return (c', None))"
    using token_required_gate [where c = "request ''Token abc''" and jwt_Parse = "accept_as ''alice''"
          and s = server and handler = probe]
    by (simp add: Let_def request_def Get_def) blast
  have good: "tokenRequired (accept_as ''alice'') server probe (request ''Bearer abc'')
       = probe (Locals_set (request ''Bearer abc'') ''userID'' ''alice'')"
    using token_required_gate [where c = "request ''Bearer abc''" and jwt_Parse = "accept_as ''alice''"
          and s = server and handler = probe and sub = "''alice''"]
    by (simp add: Let_def request_def Get_def accept_as_def)
  show ?thesis using bad_token bad_header good by blast
qed

lemma hex_Decode_fails_iff:
  "even (length s) \<Longrightarrow> (\<exists>err. hex_Decode s = Inl err) = (\<exists>ch\<in>set s. fromHexChar ch = None)"
  by (induction s rule: hex_Decode.induct)
     (auto simp del: fromHexChar.simps split: option.splits sum.splits)

lemma ObjectIDFromHex_fails_iff:
  "(\<exists>err. ObjectIDFromHex s = Inl err) = (length s \<noteq> 24 \<or> (\<exists>ch\<in>set s. fromHexChar ch = None))"
proof (cases "length s = 24")
  case True
  then have "even (length s)" by simp
  from hex_Decode_fails_iff [OF this] True show ?thesis
    by (auto simp: ObjectIDFromHex_def split: sum.splits)
next
  case False
  then show ?thesis by (simp add: ObjectIDFromHex_def)
qed

lemma Locals_userID [simp]: "Locals (Locals_set c key v) key = Some v"
  by (simp add: Locals_def Locals_set_def)

lemma bad_identity_handlers:
  fixes c :: Ctx
  assumes "Locals c ''userID'' = Some uid" and "ObjectIDFromHex uid = Inl err"
  shows "\<exists>c'. (receiveVideo ParseVideoUploadRequest s c :: (Ctx \<times> 'e option) outcome) = Return (c', None)
            \<and> response_status c' = StatusBadRequest"
    and "\<exists>c'. (getSceneMetadata ValidateRequest s c :: (Ctx \<times> 'e option) outcome) = Return (c', None)
            \<and> response_status c' = StatusBadRequest"
    and "\<exists>c'. (getUserSceneHistory s c :: (Ctx \<times> 'e option) outcome) = Return (c', None)
            \<and> response_status c' = StatusBadRequest"
    and "\<exists>c'. (getSceneThumbnail ValidateRequest ReadFile s c :: (Ctx \<times> 'e option) outcome) = Return (c', None)
            \<and> response_status c' = StatusBadRequest"
    and "\<exists>c'. (getSceneName ValidateRequest s c :: (Ctx \<times> 'e option) outcome) = Return (c', None)
            \<and> response_status c' = StatusBadRequest"
  using assms
  by (auto simp: receiveVideo_def getSceneMetadata_def getUserSceneHistory_def
        getSceneThumbnail_def getSceneName_def split: sum.splits)

text \<open>
  C9: For a token that \<open>jwt.Parse\<close> accepts and whose \<open>sub\<close> is any string,
  \<open>tokenRequired\<close> runs the handler with that string bound as \<open>userID\<close>, whatever its
  form. If the string is not 24 hexadecimal digits, each of the five protected handlers
  then answers with status 400.
\<close>

theorem token_required_binds_any_sub:
  fixes handler :: "'e Handler"
  assumes "Get c ''Authorization'' \<noteq> []"
    and "Split (Get c ''Authorization'') CHR '' '' = [''Bearer'', tokenString]"
    and "jwt_Parse tokenString (\<lambda>token. Inr (jwtSecret s)) = (Some token, None)"
    and "Valid token" and "Claims token = MapClaims claims"
    and "claims ''sub'' = Some (JString sub)"
  shows "tokenRequired jwt_Parse s handler c = handler (Locals_set c ''userID'' sub)
       \<and> Locals (Locals_set c ''userID'' sub) ''userID'' = Some sub
       \<and> (length sub \<noteq> 24 \<or> (\<exists>ch\<in>set sub. fromHexChar ch = None) \<longrightarrow>
            (\<exists>c'. tokenRequired jwt_Parse s (receiveVideo ParseVideoUploadRequest s :: 'e Handler) c
                     = Return (c', None) \<and> response_status c' = StatusBadRequest)
          \<and> (\<exists>c'. tokenRequired jwt_Parse s (getSceneMetadata ValidateRequest s :: 'e Handler) c
                     = Return (c', None) \<and> response_status c' = StatusBadRequest)
          \<and> (\<exists>c'. tokenRequired jwt_Parse s (getUserSceneHistory s :: 'e Handler) c
                     = Return (c', None) \<and> response_status c' = StatusBadRequest)
          \<and> (\<exists>c'. tokenRequired jwt_Parse s (getSceneThumbnail ValidateRequest ReadFile s :: 'e Handler) c
                     = Return (c', None) \<and> response_status c' = StatusBadRequest)
          \<and> (\<exists>c'. tokenRequired jwt_Parse s (getSceneName ValidateRequest s :: 'e Handler) c
                     = Return (c', None) \<and> response_status c' = StatusBadRequest))"
proof -
  have p: "passes jwt_Parse s c sub"
    unfolding passes_def using assms by auto
  note inv = token_required_passes [OF p]
  have bound: "Locals (Locals_set c ''userID'' sub) ''userID'' = Some sub" by simp
  have bad: "\<exists>err. ObjectIDFromHex sub = Inl err"
    if "length sub \<noteq> 24 \<or> (\<exists>ch\<in>set sub. fromHexChar ch = None)"
    using that ObjectIDFromHex_fails_iff [of sub] by simp
  show ?thesis
    unfolding inv using bound bad bad_identity_handlers [OF bound, where s = s]
    by (simp del: Locals_userID) blast
qed

theorem token_required_binds_any_sub_witness:
  "Get (request ''Bearer abc'') ''Authorization'' \<noteq> []
   \<and> Split (Get (request ''Bearer abc'') ''Authorization'') CHR '' '' = [''Bearer'', ''abc'']
   \<and> length ''alice'' \<noteq> (24::nat)
   \<and> tokenRequired (accept_as ''alice'') server probe (request ''Bearer abc'')
        = probe (Locals_set (request ''Bearer abc'') ''userID'' ''alice'')
   \<and> (\<exists>c'. tokenRequired (accept_as ''alice'') server
              (receiveVideo (\<lambda>c. Inl ''no file'') server :: unit Handler) (request ''Bearer abc'')
            = Return (c', None) \<and> response_status c' = StatusBadRequest)"
proof -
  have a: "Get (request ''Bearer abc'') ''Authorization'' \<noteq> []"
    by (simp add: request_def Get_def)
  have b: "Split (Get (request ''Bearer abc'') ''Authorization'') CHR '' '' = [''Bearer'', ''abc'']"
    by (simp add: request_def Get_def)
  have c: "accept_as ''alice'' ''abc'' (\<lambda>token. Inr (jwtSecret server))
     = (Some \<lparr>Raw = ''abc'', Header = Map.empty, Claims = MapClaims [''sub'' \<mapsto> JString ''alice''],
            Signature = [], Valid = True\<rparr>, None)"
    by (simp add: accept_as_def)
  have d: "Valid \<lparr>Raw = ''abc'', Header = Map.empty, Claims = MapClaims [''sub'' \<mapsto> JString ''alice''],
            Signature = [], Valid = True\<rparr>" by simp
  have e: "Claims \<lparr>Raw = ''abc'', Header = Map.empty, Claims = MapClaims [''sub'' \<mapsto> JString ''alice''],
            Signature = [], Valid = True\<rparr> = MapClaims [''sub'' \<mapsto> JString ''alice'']" by simp
  have f: "[''sub'' \<mapsto> JString ''alice''] ''sub'' = Some (JString ''alice'')" by simp
  show ?thesis
    using token_required_binds_any_sub [where c = "request ''Bearer abc''"
        and jwt_Parse = "accept_as ''alice''" and s = server and tokenString = "''abc''"
        and token = "\<lparr>Raw = ''abc'', Header = Map.empty,
            Claims = MapClaims [''sub'' \<mapsto> JString ''alice''], Signature = [], Valid = True\<rparr>"
        and claims = "[''sub'' \<mapsto> JString ''alice'']" and sub = "''alice''"
        and handler = probe and ParseVideoUploadRequest = "\<lambda>c. Inl ''no file''",
        OF a b c d e f] a b
    by simp
qed

end
